theory Spec2Isabelle
  imports Complex_Main
begin

section \<open>JavaScript numbers\<close>

text \<open>
  The scoring engine of \<^verbatim>\<open>src/lib/quantModel.ts\<close> computes on JavaScript numbers.
  A number is modelled as a real (the finite values, with exact arithmetic: binary
  rounding, overflow and the sign of zero are left out) or one of the three special
  values that the language adds. Where the program rounds an inexact sum or quotient
  with \<^verbatim>\<open>Math.round\<close>, a value that lies on a tie here may lie just beside it in
  double precision, and the program then returns the neighbouring integer. The
  statements below are those that this cannot affect: values computed exactly, ranges,
  monotonicity, decisions taken on scores already computed, and equations between two
  ways of applying the same operations in the same order. A field typed \<^verbatim>\<open>number | null\<close> is a
  \<open>jsnum option\<close>, with \<open>None\<close> for \<^verbatim>\<open>null\<close> and \<^verbatim>\<open>undefined\<close> alike (the code
  tests them only with \<^verbatim>\<open>== null\<close> and \<^verbatim>\<open>!= null\<close>).
\<close>

datatype jsnum = Fin real | PInf | NInf | NaN

fun js_neg :: "jsnum \<Rightarrow> jsnum" where
  "js_neg (Fin a) = Fin (- a)"
| "js_neg PInf = NInf"
| "js_neg NInf = PInf"
| "js_neg NaN = NaN"

fun js_add :: "jsnum \<Rightarrow> jsnum \<Rightarrow> jsnum" where
  "js_add (Fin a) (Fin b) = Fin (a + b)"
| "js_add NaN _ = NaN"
| "js_add _ NaN = NaN"
| "js_add PInf NInf = NaN"
| "js_add NInf PInf = NaN"
| "js_add PInf _ = PInf"
| "js_add _ PInf = PInf"
| "js_add NInf _ = NInf"
| "js_add _ NInf = NInf"

definition js_sub :: "jsnum \<Rightarrow> jsnum \<Rightarrow> jsnum" where
  "js_sub a b = js_add a (js_neg b)"

text \<open>The sign of a number that is not NaN, and the infinity of a given sign.\<close>

fun js_sign :: "jsnum \<Rightarrow> real" where
  "js_sign (Fin a) = sgn a"
| "js_sign PInf = 1"
| "js_sign NInf = - 1"
| "js_sign NaN = 0"

definition inf_of_sign :: "real \<Rightarrow> jsnum" where
  "inf_of_sign s = (if s = 0 then NaN else if 0 < s then PInf else NInf)"

fun js_mul :: "jsnum \<Rightarrow> jsnum \<Rightarrow> jsnum" where
  "js_mul (Fin a) (Fin b) = Fin (a * b)"
| "js_mul NaN _ = NaN"
| "js_mul _ NaN = NaN"
| "js_mul a b = inf_of_sign (js_sign a * js_sign b)"

text \<open>
  Division. A finite value divided by zero is an infinity of the sign of the dividend
  (zero is taken as positive) and \<open>0 / 0\<close> is NaN; the engine never divides by zero.
\<close>

fun js_div :: "jsnum \<Rightarrow> jsnum \<Rightarrow> jsnum" where
  "js_div (Fin a) (Fin b) = (if b = 0 then inf_of_sign a else Fin (a / b))"
| "js_div NaN _ = NaN"
| "js_div _ NaN = NaN"
| "js_div (Fin a) _ = Fin 0"
| "js_div a (Fin b) = (if b = 0 then a else inf_of_sign (js_sign a * sgn b))"
| "js_div _ _ = NaN"

text \<open>The comparisons \<^verbatim>\<open><=\<close> and \<^verbatim>\<open><\<close>; every comparison with NaN is false.\<close>

fun js_le :: "jsnum \<Rightarrow> jsnum \<Rightarrow> bool" where
  "js_le (Fin a) (Fin b) = (a \<le> b)"
| "js_le NaN _ = False"
| "js_le _ NaN = False"
| "js_le NInf _ = True"
| "js_le _ PInf = True"
| "js_le _ _ = False"

fun js_lt :: "jsnum \<Rightarrow> jsnum \<Rightarrow> bool" where
  "js_lt (Fin a) (Fin b) = (a < b)"
| "js_lt NaN _ = False"
| "js_lt _ NaN = False"
| "js_lt PInf _ = False"
| "js_lt _ NInf = False"
| "js_lt _ _ = True"

definition js_ge :: "jsnum \<Rightarrow> jsnum \<Rightarrow> bool" where
  "js_ge a b = js_le b a"

definition js_gt :: "jsnum \<Rightarrow> jsnum \<Rightarrow> bool" where
  "js_gt a b = js_lt b a"

text \<open>\<^verbatim>\<open>Math.round\<close> rounds to the nearest integer, a half towards plus infinity.\<close>

fun js_round :: "jsnum \<Rightarrow> jsnum" where
  "js_round (Fin a) = Fin (of_int \<lfloor>a + 1 / 2\<rfloor>)"
| "js_round x = x"

fun js_abs :: "jsnum \<Rightarrow> jsnum" where
  "js_abs (Fin a) = Fin \<bar>a\<bar>"
| "js_abs NaN = NaN"
| "js_abs _ = PInf"

fun js_log10 :: "jsnum \<Rightarrow> jsnum" where
  "js_log10 (Fin a) = (if 0 < a then Fin (log 10 a) else if a = 0 then NInf else NaN)"
| "js_log10 PInf = PInf"
| "js_log10 _ = NaN"

text \<open>\<^verbatim>\<open>Math.min\<close> and \<^verbatim>\<open>Math.max\<close> of two numbers: NaN when either is NaN.\<close>

definition js_min :: "jsnum \<Rightarrow> jsnum \<Rightarrow> jsnum" where
  "js_min a b = (if a = NaN \<or> b = NaN then NaN else if js_le a b then a else b)"

definition js_max :: "jsnum \<Rightarrow> jsnum \<Rightarrow> jsnum" where
  "js_max a b = (if a = NaN \<or> b = NaN then NaN else if js_le a b then b else a)"

text \<open>\<^verbatim>\<open>Number.isFinite\<close>, and the truthiness of a number (zero and NaN are falsy).\<close>

fun isFinite :: "jsnum \<Rightarrow> bool" where
  "isFinite (Fin a) = True"
| "isFinite _ = False"

fun truthy :: "jsnum option \<Rightarrow> bool" where
  "truthy None = False"
| "truthy (Some (Fin a)) = (a \<noteq> 0)"
| "truthy (Some NaN) = False"
| "truthy (Some _) = True"

subsection \<open>Numbers in template strings\<close>

text \<open>
  The decimal digits of a natural number and of an integer. A template string renders an
  integral number below \<open>10\<^sup>2\<^sup>1\<close> this way. Every number that the engine
  interpolates is integral (a rounded score, or the conviction computed from one), so
  \<open>js_toString\<close> renders the integer part of a finite value and leaves fractions out.
\<close>

definition digit :: "nat \<Rightarrow> char" where
  "digit d = ''0123456789'' ! d"

fun show_nat :: "nat \<Rightarrow> string" where
  "show_nat n =
     (if n < 10 then [digit n]
      else show_nat (n div 10) @ [digit (n mod 10)])"

definition show_int :: "int \<Rightarrow> string" where
  "show_int i = (if i < 0 then CHR ''-'' # show_nat (nat (- i)) else show_nat (nat i))"

fun js_toString :: "jsnum \<Rightarrow> string" where
  "js_toString (Fin a) = show_int \<lfloor>a\<rfloor>"
| "js_toString PInf = ''Infinity''"
| "js_toString NInf = ''-Infinity''"
| "js_toString NaN = ''NaN''"

section \<open>Data model\<close>

text \<open>\<^verbatim>\<open>MarketSnapshot\<close> of \<^verbatim>\<open>src/lib/fetchYahooRapid.ts\<close>, all of its fields.\<close>

record MarketSnapshot =
  ticker :: string
  companyName :: "string option"
  price :: "jsnum option"
  prevClose :: "jsnum option"
  dayHigh :: "jsnum option"
  dayLow :: "jsnum option"
  fiftyTwoWeekHigh :: "jsnum option"
  fiftyTwoWeekLow :: "jsnum option"
  volume :: "jsnum option"
  avgVolume3m :: "jsnum option"
  change1dPct :: "jsnum option"
  changeFrom52wLowPct :: "jsnum option"
  changeFrom52wHighPct :: "jsnum option"
  fiftyTwoWeekChangePct :: "jsnum option"
  marketCap :: "jsnum option"
  peRatio :: "jsnum option"
  pegRatio :: "jsnum option"
  priceToSales :: "jsnum option"
  priceToBook :: "jsnum option"
  profitMargin :: "jsnum option"
  roe :: "jsnum option"
  revenueGrowth :: "jsnum option"
  epsGrowth :: "jsnum option"
  beta :: "jsnum option"

datatype Rating = BUY | HOLD | SELL

record MarketAnalysis =
  rating :: Rating
  conviction :: jsnum
  toneScore :: jsnum
  growthScore :: jsnum
  profitabilityScore :: jsnum
  valuationScore :: jsnum
  balanceScore :: jsnum
  healthScore :: jsnum
  summary :: string
  keyRisks :: "string list"
  thesis :: string

section \<open>Helpers\<close>

text \<open>
  The averages, the band mapper and the P/E curve, with the names, the branch order and
  the constants of the source.
\<close>

definition clamp :: "jsnum \<Rightarrow> jsnum \<Rightarrow> jsnum \<Rightarrow> jsnum" where
  "clamp v mn mx = js_min mx (js_max mn v)"

fun safeNum :: "jsnum option \<Rightarrow> jsnum option" where
  "safeNum (Some n) = (if isFinite n then Some n else None)"
| "safeNum None = None"

text \<open>
  The filter of both averages keeps the entries that are numbers and not NaN;
  \<^verbatim>\<open>reduce\<close> adds them from the left, starting at 0.
\<close>

fun numeric_scores :: "jsnum option list \<Rightarrow> jsnum list" where
  "numeric_scores [] = []"
| "numeric_scores (None # ss) = numeric_scores ss"
| "numeric_scores (Some s # ss) = (if s = NaN then numeric_scores ss else s # numeric_scores ss)"

definition avgScores :: "jsnum option list \<Rightarrow> jsnum" where
  "avgScores scores =
     (let vals = numeric_scores scores in
      if length vals = 0 then Fin 50
      else let sum = foldl js_add (Fin 0) vals
           in js_round (js_div sum (Fin (real (length vals)))))"

definition avgScoresOrNull :: "jsnum option list \<Rightarrow> jsnum option" where
  "avgScoresOrNull scores =
     (let vals = numeric_scores scores in
      if length vals = 0 then None
      else let sum = foldl js_add (Fin 0) vals
           in Some (js_round (js_div sum (Fin (real (length vals))))))"

fun scoreFromBand :: "jsnum option \<Rightarrow> jsnum \<Rightarrow> jsnum \<Rightarrow> jsnum" where
  "scoreFromBand None mn mx = Fin 50"
| "scoreFromBand (Some v) mn mx =
     (if js_le v mn then Fin 10
      else if js_ge v mx then Fin 95
      else let t = js_div (js_sub v mn) (js_sub mx mn)
           in js_add (Fin 10) (js_mul t (js_sub (Fin 95) (Fin 10))))"

fun scoreFromBandOrNull :: "jsnum option \<Rightarrow> jsnum \<Rightarrow> jsnum \<Rightarrow> jsnum option" where
  "scoreFromBandOrNull None mn mx = None"
| "scoreFromBandOrNull (Some v) mn mx =
     (if js_le v mn then Some (Fin 10)
      else if js_ge v mx then Some (Fin 95)
      else let t = js_div (js_sub v mn) (js_sub mx mn)
           in Some (js_add (Fin 10) (js_mul t (js_sub (Fin 95) (Fin 10)))))"

definition scoreFromPeOrNull :: "jsnum option \<Rightarrow> jsnum option" where
  "scoreFromPeOrNull peRaw =
     (case safeNum peRaw of
        None \<Rightarrow> None
      | Some pe \<Rightarrow>
          if js_le pe (Fin 0) then Some (Fin 20)
          else if js_ge pe (Fin 5) \<and> js_le pe (Fin 15) then
            (let t = js_div (js_sub pe (Fin 5)) (Fin 10)
             in Some (js_round (js_sub (Fin 95) (js_mul t (Fin 15)))))
          else if js_gt pe (Fin 15) \<and> js_le pe (Fin 30) then
            (let t = js_div (js_sub pe (Fin 15)) (Fin 15)
             in Some (js_round (js_sub (Fin 80) (js_mul t (Fin 25)))))
          else if js_gt pe (Fin 30) \<and> js_le pe (Fin 60) then
            (let t = js_div (js_sub pe (Fin 30)) (Fin 30)
             in Some (js_round (js_sub (Fin 55) (js_mul t (Fin 15)))))
          else Some (Fin 35))"

section \<open>Factor scores\<close>

definition scoreValue :: "MarketSnapshot \<Rightarrow> jsnum" where
  "scoreValue s =
     (let peScore = scoreFromPeOrNull (peRatio s);
          psScore = scoreFromBandOrNull (priceToSales s) (Fin 1) (Fin 12);
          pbScore = scoreFromBandOrNull (priceToBook s) (Fin 0.8) (Fin 6);
          pegScore = scoreFromBandOrNull (pegRatio s) (Fin 0.5) (Fin 3)
      in avgScores [peScore, psScore, pbScore, pegScore])"

text \<open>
  The local variable \<^verbatim>\<open>priceGrowthScore\<close> of \<^verbatim>\<open>scoreGrowth\<close>: null at first, then set by
  the first branch that applies. The options are read with \<open>the\<close> only behind their
  null checks.
\<close>

definition priceGrowth :: "MarketSnapshot \<Rightarrow> jsnum option" where
  "priceGrowth s =
     (if fiftyTwoWeekChangePct s \<noteq> None then
        scoreFromBandOrNull (fiftyTwoWeekChangePct s) (Fin (- 40)) (Fin 150)
      else if price s \<noteq> None \<and> fiftyTwoWeekLow s \<noteq> None \<and> fiftyTwoWeekHigh s \<noteq> None
              \<and> js_gt (the (fiftyTwoWeekHigh s)) (the (fiftyTwoWeekLow s)) then
        (let pos = js_div (js_sub (the (price s)) (the (fiftyTwoWeekLow s)))
                          (js_sub (the (fiftyTwoWeekHigh s)) (the (fiftyTwoWeekLow s)))
         in scoreFromBandOrNull (Some pos) (Fin 0) (Fin 1))
      else None)"

definition scoreGrowth :: "MarketSnapshot \<Rightarrow> jsnum" where
  "scoreGrowth s =
     (let revFundScore = scoreFromBandOrNull (revenueGrowth s) (Fin 0) (Fin 0.35);
          epsFundScore = scoreFromBandOrNull (epsGrowth s) (Fin 0) (Fin 0.45);
          fundamentalGrowthScore = avgScoresOrNull [revFundScore, epsFundScore];
          priceGrowthScore = priceGrowth s
      in avgScores
           (if fundamentalGrowthScore \<noteq> None
            then [fundamentalGrowthScore, priceGrowthScore]
            else [priceGrowthScore]))"

definition scoreQuality :: "MarketSnapshot \<Rightarrow> jsnum" where
  "scoreQuality s =
     (let marginScore = scoreFromBandOrNull (profitMargin s) (Fin 0.05) (Fin 0.35);
          roeScore = scoreFromBandOrNull (roe s) (Fin 0.08) (Fin 0.35)
      in avgScores [marginScore, roeScore])"

definition scoreMomentum :: "MarketSnapshot \<Rightarrow> jsnum" where
  "scoreMomentum s =
     (let dayScore = scoreFromBandOrNull (change1dPct s) (Fin (- 5)) (Fin 5);
          yearScore = scoreFromBandOrNull (fiftyTwoWeekChangePct s) (Fin (- 40)) (Fin 150);
          distFromHighScore =
            scoreFromBandOrNull
              (case changeFrom52wHighPct s of
                 Some c \<Rightarrow> Some (js_neg (js_abs c))
               | None \<Rightarrow> None)
              (Fin (- 60)) (Fin 0)
      in avgScores [dayScore, yearScore, distFromHighScore])"

text \<open>The local variable \<^verbatim>\<open>sizeScore\<close> of \<^verbatim>\<open>scoreRisk\<close>.\<close>

definition sizeScore :: "MarketSnapshot \<Rightarrow> jsnum option" where
  "sizeScore s =
     (if truthy (marketCap s) \<and> js_gt (the (marketCap s)) (Fin 0) then
        (let logCap = js_log10 (the (marketCap s))
         in scoreFromBandOrNull (Some logCap) (Fin 9) (Fin 12))
      else None)"

definition scoreRisk :: "MarketSnapshot \<Rightarrow> jsnum" where
  "scoreRisk s =
     (let betaScore = scoreFromBandOrNull (beta s) (Fin 0.8) (Fin 1.8)
      in avgScores [betaScore, sizeScore s])"

section \<open>Composite scores, rating and narrative\<close>

text \<open>
  The body of \<^verbatim>\<open>computeQuantAnalysis\<close>, one definition for each value it computes, in
  the order of the source: the two weighted sums, the rating, the conviction, the key
  risks and the two template strings. The weighted sums are exact here; the program adds
  doubles, so on a snapshot whose exact sum is a tie of \<^verbatim>\<open>Math.round\<close> its composite
  score can be the neighbouring integer.
\<close>

definition balanceOf :: "jsnum \<Rightarrow> jsnum \<Rightarrow> jsnum \<Rightarrow> jsnum \<Rightarrow> jsnum \<Rightarrow> jsnum" where
  "balanceOf valueScore qualityScore growthSc momentumScore riskScore =
     js_round
       (js_add (js_add (js_add (js_add
          (js_mul valueScore (Fin 0.25))
          (js_mul qualityScore (Fin 0.25)))
          (js_mul growthSc (Fin 0.25)))
          (js_mul riskScore (Fin 0.15)))
          (js_mul momentumScore (Fin 0.10)))"

definition healthOf :: "jsnum \<Rightarrow> jsnum \<Rightarrow> jsnum \<Rightarrow> jsnum \<Rightarrow> jsnum \<Rightarrow> jsnum" where
  "healthOf valueScore qualityScore growthSc momentumScore riskScore =
     js_round
       (js_add (js_add (js_add (js_add
          (js_mul valueScore (Fin 0.20))
          (js_mul qualityScore (Fin 0.25)))
          (js_mul growthSc (Fin 0.30)))
          (js_mul momentumScore (Fin 0.15)))
          (js_mul riskScore (Fin 0.10)))"

definition ratingOf :: "jsnum \<Rightarrow> jsnum \<Rightarrow> Rating" where
  "ratingOf health balance =
     (if js_ge health (Fin 72) \<and> js_ge balance (Fin 60) then BUY
      else if js_le health (Fin 40) \<or> js_le balance (Fin 40) then SELL
      else HOLD)"

definition convictionOf :: "jsnum \<Rightarrow> jsnum" where
  "convictionOf health =
     (let distanceFromNeutral = js_abs (js_sub health (Fin 50))
      in clamp (js_add (Fin 35) distanceFromNeutral) (Fin 10) (Fin 90))"

fun show_rating :: "Rating \<Rightarrow> string" where
  "show_rating BUY = ''BUY''"
| "show_rating HOLD = ''HOLD''"
| "show_rating SELL = ''SELL''"

text \<open>The three caveats. The dash of the first is U+2013, written as its UTF-8 bytes.\<close>

definition profitabilityCaveat :: string where
  "profitabilityCaveat =
     ''Profitability metrics (margin/ROE) are partially missing or estimated ''
     @ [CHR 0xE2, CHR 0x80, CHR 0x93]
     @ '' interpret profitability-related scores with some caution.''"

definition growthCaveat :: string where
  "growthCaveat =
     ''Growth fundamentals are incomplete, so the growth score leans more heavily on price-based momentum and position in the 52-week range.''"

definition trailingCaveat :: string where
  "trailingCaveat =
     ''Scores are based on trailing data and do not incorporate forward guidance, breaking news, or macro shocks.''"

definition keyRisksOf :: "MarketSnapshot \<Rightarrow> string list" where
  "keyRisksOf snapshot =
     (let r1 = (if profitMargin snapshot = None \<or> roe snapshot = None
                then [profitabilityCaveat] else []);
          r2 = (if revenueGrowth snapshot = None \<or> epsGrowth snapshot = None
                then r1 @ [growthCaveat] else r1)
      in if length r2 = 0 then r2 @ [trailingCaveat] else r2)"

definition summaryOf :: "MarketSnapshot \<Rightarrow> string" where
  "summaryOf snapshot =
     (let name = (case companyName snapshot of Some c \<Rightarrow> c | None \<Rightarrow> ticker snapshot)
      in ''Quantitative snapshot for '' @ name @ '' ('' @ ticker snapshot
         @ '') using valuation (P/E, PEG, P/S, P/B), growth (fundamental & price-based), profitability (margin & ROE), momentum, and basic risk proxies.'')"

definition thesisOf :: "jsnum \<Rightarrow> jsnum \<Rightarrow> jsnum \<Rightarrow> jsnum \<Rightarrow> jsnum \<Rightarrow> Rating \<Rightarrow> jsnum \<Rightarrow> string" where
  "thesisOf health growth profitability valuation risk rt conv =
     ''The composite health score of '' @ js_toString health
     @ '' blends '' @ js_toString growth @ '' for growth, ''
     @ js_toString profitability @ '' for profitability, ''
     @ js_toString valuation @ '' for valuation, and ''
     @ js_toString risk
     @ '' for risk characteristics. This currently supports a '' @ show_rating rt
     @ '' stance with about '' @ js_toString conv
     @ ''% conviction given the available data.''"

definition computeQuantAnalysis :: "MarketSnapshot \<Rightarrow> MarketAnalysis" where
  "computeQuantAnalysis snapshot =
     (let valueScore = scoreValue snapshot;
          growthSc = scoreGrowth snapshot;
          qualityScore = scoreQuality snapshot;
          momentumScore = scoreMomentum snapshot;
          riskScore = scoreRisk snapshot;
          balanceSc = balanceOf valueScore qualityScore growthSc momentumScore riskScore;
          healthSc = healthOf valueScore qualityScore growthSc momentumScore riskScore;
          rt = ratingOf healthSc balanceSc;
          conv = convictionOf healthSc
      in \<lparr> rating = rt,
           conviction = conv,
           toneScore = momentumScore,
           growthScore = growthSc,
           profitabilityScore = qualityScore,
           valuationScore = valueScore,
           balanceScore = balanceSc,
           healthScore = healthSc,
           summary = summaryOf snapshot,
           keyRisks = keyRisksOf snapshot,
           thesis = thesisOf healthSc growthSc qualityScore valueScore riskScore rt conv \<rparr>)"

text \<open>
  The placeholder snapshot that \<^verbatim>\<open>src/app/api/analyze-stock/route.ts\<close> builds when no
  provider answers: the ticker as the company name and every numeric field null.
\<close>

definition placeholder :: "string \<Rightarrow> MarketSnapshot" where
  "placeholder t =
     \<lparr> ticker = t, companyName = Some t,
       price = None, prevClose = None, dayHigh = None, dayLow = None,
       fiftyTwoWeekHigh = None, fiftyTwoWeekLow = None,
       volume = None, avgVolume3m = None,
       change1dPct = None, changeFrom52wLowPct = None, changeFrom52wHighPct = None,
       fiftyTwoWeekChangePct = None,
       marketCap = None, peRatio = None, pegRatio = None,
       priceToSales = None, priceToBook = None,
       profitMargin = None, roe = None, revenueGrowth = None, epsGrowth = None,
       beta = None \<rparr>"

section \<open>Auxiliary notions for the statements\<close>

text \<open>
  What a band or curve function may hand to an average: nothing, NaN (which the average
  filters out), or a finite value between 10 and 95.
\<close>

definition score_ok :: "jsnum option \<Rightarrow> bool" where
  "score_ok s = (case s of None \<Rightarrow> True | Some NaN \<Rightarrow> True
                 | Some (Fin x) \<Rightarrow> 10 \<le> x \<and> x \<le> 95 | Some _ \<Rightarrow> False)"

text \<open>A factor score: an integer between 10 and 95.\<close>

definition factor_ok :: "jsnum \<Rightarrow> bool" where
  "factor_ok x = (\<exists>k::int. x = Fin (of_int k) \<and> 10 \<le> k \<and> k \<le> 95)"

text \<open>The value of the P/E curve at a finite \<open>pe\<close>, as an integer.\<close>

definition peCurve :: "real \<Rightarrow> int" where
  "peCurve pe =
     (if pe \<le> 0 then 20
      else if 5 \<le> pe \<and> pe \<le> 15 then \<lfloor>95 - (pe - 5) / 10 * 15 + 1 / 2\<rfloor>
      else if 15 < pe \<and> pe \<le> 30 then \<lfloor>80 - (pe - 15) / 15 * 25 + 1 / 2\<rfloor>
      else if 30 < pe \<and> pe \<le> 60 then \<lfloor>55 - (pe - 30) / 30 * 15 + 1 / 2\<rfloor>
      else 35)"

text \<open>A number lies between two finite bounds (and so is not NaN).\<close>

definition in_range :: "real \<Rightarrow> real \<Rightarrow> jsnum \<Rightarrow> bool" where
  "in_range lo hi x = (js_le (Fin lo) x \<and> js_le x (Fin hi))"

text \<open>
  A snapshot in which every numeric field is absent (the ticker and the company name are
  the only fields that are not numeric).
\<close>

definition numericFieldsAbsent :: "MarketSnapshot \<Rightarrow> bool" where
  "numericFieldsAbsent s =
     (price s = None \<and> prevClose s = None \<and> dayHigh s = None \<and> dayLow s = None
      \<and> fiftyTwoWeekHigh s = None \<and> fiftyTwoWeekLow s = None
      \<and> volume s = None \<and> avgVolume3m s = None
      \<and> change1dPct s = None \<and> changeFrom52wLowPct s = None
      \<and> changeFrom52wHighPct s = None \<and> fiftyTwoWeekChangePct s = None
      \<and> marketCap s = None \<and> peRatio s = None \<and> pegRatio s = None
      \<and> priceToSales s = None \<and> priceToBook s = None
      \<and> profitMargin s = None \<and> roe s = None
      \<and> revenueGrowth s = None \<and> epsGrowth s = None \<and> beta s = None)"

text \<open>
  Two snapshots agree on every field that the engine reads: the two names and the
  sixteen numeric fields that a scorer or the narrative looks at. The previous close,
  the day's high and low, the two volumes and the distance from the 52-week low are
  never read.
\<close>

definition sameInputs :: "MarketSnapshot \<Rightarrow> MarketSnapshot \<Rightarrow> bool" where
  "sameInputs s t =
     (ticker s = ticker t \<and> companyName s = companyName t
      \<and> price s = price t
      \<and> fiftyTwoWeekHigh s = fiftyTwoWeekHigh t \<and> fiftyTwoWeekLow s = fiftyTwoWeekLow t
      \<and> change1dPct s = change1dPct t
      \<and> changeFrom52wHighPct s = changeFrom52wHighPct t
      \<and> fiftyTwoWeekChangePct s = fiftyTwoWeekChangePct t
      \<and> marketCap s = marketCap t \<and> peRatio s = peRatio t \<and> pegRatio s = pegRatio t
      \<and> priceToSales s = priceToSales t \<and> priceToBook s = priceToBook t
      \<and> profitMargin s = profitMargin t \<and> roe s = roe t
      \<and> revenueGrowth s = revenueGrowth t \<and> epsGrowth s = epsGrowth t
      \<and> beta s = beta t)"

subsection \<open>The two-stage growth score, in words\<close>






subsection \<open>Example snapshots\<close>

text \<open>
  Four snapshots on which the statements below are evaluated: one whose health score
  is 71, one whose health score is 72, one with growth fundamentals and a position in
  the 52-week range, and one whose only numeric field is a revenue growth of 15%.
\<close>

definition holdExample :: MarketSnapshot where
  "holdExample = (placeholder ''ACME'')\<lparr> peRatio := Some (Fin 16.2),
      profitMargin := Some (Fin 0.29), revenueGrowth := Some (Fin 0.28) \<rparr>"

definition buyExample :: MarketSnapshot where
  "buyExample = (placeholder ''ACME'')\<lparr> peRatio := Some (Fin 15.6),
      profitMargin := Some (Fin 0.2935), revenueGrowth := Some (Fin 0.285) \<rparr>"



section \<open>Band scores and averages stay between 10 and 95\<close>

lemma band_Fin:
  "scoreFromBandOrNull (Some (Fin x)) (Fin lo) (Fin hi) =
     Some (Fin (if x \<le> lo then 10 else if hi \<le> x then 95
                else 10 + (x - lo) / (hi - lo) * 85))"
  by (simp add: js_ge_def js_sub_def)

lemma band_same:
  "scoreFromBandOrNull (Some v) mn mx = Some (scoreFromBand (Some v) mn mx)"
  by (simp add: Let_def)

lemma band_interp_bounds:
  fixes x lo hi :: real
  assumes "lo < x" "x < hi"
  shows "10 \<le> 10 + (x - lo) / (hi - lo) * 85" "10 + (x - lo) / (hi - lo) * 85 \<le> 95"
proof -
  have d: "0 < hi - lo" using assms by simp
  have "0 \<le> (x - lo) / (hi - lo)" using assms d by simp
  then have "0 \<le> (x - lo) / (hi - lo) * 85" by (rule mult_nonneg_nonneg) simp
  then show "10 \<le> 10 + (x - lo) / (hi - lo) * 85" by linarith
  have "(x - lo) / (hi - lo) \<le> 1" using assms d by simp
  then have "(x - lo) / (hi - lo) * 85 \<le> 1 * 85" by (rule mult_right_mono) simp
  then show "10 + (x - lo) / (hi - lo) * 85 \<le> 95" by linarith
qed

lemma band_ok: "score_ok (scoreFromBandOrNull v (Fin lo) (Fin hi))"
proof (cases v)
  case None
  then show ?thesis by (simp add: score_ok_def)
next
  case (Some n)
  show ?thesis
  proof (cases n)
    case (Fin x)
    show ?thesis
      unfolding Some Fin band_Fin score_ok_def
      using band_interp_bounds[of lo x hi] by auto
  qed (simp_all add: Some score_ok_def js_ge_def js_sub_def)
qed

lemma numeric_scores_ok:
  "\<forall>s\<in>set ss. score_ok s \<Longrightarrow> \<forall>x\<in>set (numeric_scores ss). \<exists>r. x = Fin r \<and> 10 \<le> r \<and> r \<le> 95"
proof (induction ss rule: numeric_scores.induct)
  case (3 s ss)
  then show ?case by (cases s) (auto simp: score_ok_def)
qed simp_all

lemma foldl_add_bounds:
  "\<forall>x\<in>set xs. \<exists>r. x = Fin r \<and> 10 \<le> r \<and> r \<le> 95 \<Longrightarrow>
     \<exists>t. foldl js_add (Fin a) xs = Fin t \<and> a + 10 * real (length xs) \<le> t
          \<and> t \<le> a + 95 * real (length xs)"
proof (induction xs arbitrary: a)
  case Nil
  then show ?case by simp
next
  case (Cons x xs)
  then obtain r where r: "x = Fin r" "10 \<le> r" "r \<le> 95" by auto
  from Cons have "\<forall>x\<in>set xs. \<exists>r. x = Fin r \<and> 10 \<le> r \<and> r \<le> 95" by simp
  from Cons.IH[OF this, of "a + r"] obtain t where
    t: "foldl js_add (Fin (a + r)) xs = Fin t" "a + r + 10 * real (length xs) \<le> t"
       "t \<le> a + r + 95 * real (length xs)" by blast
  show ?case using r t by (simp add: algebra_simps)
qed

lemma mean_round_bounds:
  fixes t :: real and n :: nat
  assumes "0 < n" "10 * real n \<le> t" "t \<le> 95 * real n"
  shows "10 \<le> \<lfloor>t / real n + 1 / 2\<rfloor>" "\<lfloor>t / real n + 1 / 2\<rfloor> \<le> 95"
proof -
  have a: "10 \<le> t / real n" using assms by (simp add: pos_le_divide_eq)
  have b: "t / real n \<le> 95" using assms by (simp add: pos_divide_le_eq)
  show "10 \<le> \<lfloor>t / real n + 1 / 2\<rfloor>" using a by (simp add: le_floor_iff)
  show "\<lfloor>t / real n + 1 / 2\<rfloor> \<le> 95" using b by (simp add: floor_le_iff)
qed

lemma avgScores_ok:
  assumes "\<forall>s\<in>set ss. score_ok s"
  shows "factor_ok (avgScores ss)"
proof (cases "numeric_scores ss = []")
  case True
  have "avgScores ss = Fin (of_int 50)" using True by (simp add: avgScores_def)
  then show ?thesis unfolding factor_ok_def by (intro exI[of _ 50]) simp
next
  case False
  let ?vals = "numeric_scores ss"
  have n: "0 < length ?vals" using False by simp
  from foldl_add_bounds[OF numeric_scores_ok[OF assms], of 0] obtain t where
    t: "foldl js_add (Fin 0) ?vals = Fin t" "10 * real (length ?vals) \<le> t"
       "t \<le> 95 * real (length ?vals)" by auto
  have "avgScores ss = Fin (of_int \<lfloor>t / real (length ?vals) + 1 / 2\<rfloor>)"
    using False t by (simp add: avgScores_def Let_def)
  then show ?thesis unfolding factor_ok_def
    using mean_round_bounds[OF n t(2,3)] by blast
qed

lemma pe_Fin: "scoreFromPeOrNull (Some (Fin pe)) = Some (Fin (of_int (peCurve pe)))"
  by (simp add: scoreFromPeOrNull_def peCurve_def js_ge_def js_gt_def js_sub_def)

lemma pe_absent:
  "scoreFromPeOrNull None = None" "scoreFromPeOrNull (Some NaN) = None"
  "scoreFromPeOrNull (Some PInf) = None" "scoreFromPeOrNull (Some NInf) = None"
  by (simp_all add: scoreFromPeOrNull_def)

lemma peCurve_seg1: "5 \<le> pe \<Longrightarrow> pe \<le> 15 \<Longrightarrow> 80 \<le> peCurve pe \<and> peCurve pe \<le> 95"
  unfolding peCurve_def by (simp add: le_floor_iff floor_le_iff field_simps)

lemma peCurve_seg2: "15 < pe \<Longrightarrow> pe \<le> 30 \<Longrightarrow> 55 \<le> peCurve pe \<and> peCurve pe \<le> 80"
  unfolding peCurve_def by (simp add: le_floor_iff floor_le_iff field_simps)

lemma peCurve_seg3: "30 < pe \<Longrightarrow> pe \<le> 60 \<Longrightarrow> 40 \<le> peCurve pe \<and> peCurve pe \<le> 55"
  unfolding peCurve_def by (simp add: le_floor_iff floor_le_iff field_simps)

lemma peCurve_seg4: "60 < pe \<Longrightarrow> peCurve pe = 35"
  unfolding peCurve_def by simp

lemma peCurve_low: "0 < pe \<Longrightarrow> pe < 5 \<Longrightarrow> peCurve pe = 35"
  unfolding peCurve_def by simp

lemma peCurve_range: "20 \<le> peCurve pe \<and> peCurve pe \<le> 95"
proof -
  consider "pe \<le> 0" | "0 < pe" "pe < 5" | "5 \<le> pe" "pe \<le> 15" | "15 < pe" "pe \<le> 30"
    | "30 < pe" "pe \<le> 60" | "60 < pe" by linarith
  then show ?thesis
  proof cases
    case 1 then show ?thesis by (simp add: peCurve_def)
  next
    case 2 then show ?thesis using peCurve_low[of pe] by simp
  next
    case 3 then show ?thesis using peCurve_seg1[of pe] by simp
  next
    case 4 then show ?thesis using peCurve_seg2[of pe] by simp
  next
    case 5 then show ?thesis using peCurve_seg3[of pe] by simp
  next
    case 6 then show ?thesis using peCurve_seg4[of pe] by simp
  qed
qed

lemma pe_ok: "score_ok (scoreFromPeOrNull v)"
proof (cases v)
  case None
  then show ?thesis by (simp add: pe_absent score_ok_def)
next
  case (Some n)
  show ?thesis
  proof (cases n)
    case (Fin x)
    have "10 \<le> real_of_int (peCurve x)" "real_of_int (peCurve x) \<le> 95"
      using peCurve_range[of x] by simp_all
    then show ?thesis unfolding Some Fin pe_Fin score_ok_def by simp
  qed (simp_all add: Some pe_absent score_ok_def)
qed

lemma avgScoresOrNull_eq:
  "avgScoresOrNull ss = (if numeric_scores ss = [] then None else Some (avgScores ss))"
  by (simp add: avgScoresOrNull_def avgScores_def Let_def)

lemma factor_ok_score_ok: "factor_ok x \<Longrightarrow> score_ok (Some x)"
  by (auto simp: factor_ok_def score_ok_def)

lemma avgScoresOrNull_ok:
  assumes "\<forall>s\<in>set ss. score_ok s"
  shows "score_ok (avgScoresOrNull ss)"
  using avgScores_ok[OF assms] factor_ok_score_ok
  by (auto simp: avgScoresOrNull_eq score_ok_def)

lemma scoreValue_ok: "factor_ok (scoreValue s)"
  unfolding scoreValue_def Let_def by (rule avgScores_ok) (simp add: band_ok pe_ok)

lemma scoreQuality_ok: "factor_ok (scoreQuality s)"
  unfolding scoreQuality_def Let_def by (rule avgScores_ok) (simp add: band_ok)

lemma scoreMomentum_ok: "factor_ok (scoreMomentum s)"
  unfolding scoreMomentum_def Let_def by (rule avgScores_ok) (simp add: band_ok)

lemma sizeScore_ok: "score_ok (sizeScore s)"
proof (cases "truthy (marketCap s) \<and> js_gt (the (marketCap s)) (Fin 0)")
  case True
  then show ?thesis unfolding sizeScore_def Let_def using band_ok by presburger
next
  case False
  then have "sizeScore s = None" unfolding sizeScore_def by presburger
  then show ?thesis by (simp add: score_ok_def)
qed

lemma scoreRisk_ok: "factor_ok (scoreRisk s)"
  unfolding scoreRisk_def Let_def by (rule avgScores_ok) (simp add: band_ok sizeScore_ok)

lemma priceGrowth_ok: "score_ok (priceGrowth s)"
proof -
  have n: "score_ok None" by (simp add: score_ok_def)
  show ?thesis unfolding priceGrowth_def Let_def using band_ok n by presburger
qed

lemma scoreGrowth_ok: "factor_ok (scoreGrowth s)"
proof -
  have f: "score_ok (avgScoresOrNull
            [scoreFromBandOrNull (revenueGrowth s) (Fin 0) (Fin 0.35),
             scoreFromBandOrNull (epsGrowth s) (Fin 0) (Fin 0.45)])"
    by (rule avgScoresOrNull_ok) (simp add: band_ok)
  show ?thesis
    unfolding scoreGrowth_def Let_def
    by (rule avgScores_ok) (use f priceGrowth_ok in auto)
qed

lemma balanceOf_Fin:
  "balanceOf (Fin v) (Fin q) (Fin g) (Fin m) (Fin r) =
     Fin (of_int (round (0.25 * v + 0.25 * q + 0.25 * g + 0.15 * r + 0.10 * m)))"
  by (simp add: balanceOf_def round_def algebra_simps)

lemma healthOf_Fin:
  "healthOf (Fin v) (Fin q) (Fin g) (Fin m) (Fin r) =
     Fin (of_int (round (0.20 * v + 0.25 * q + 0.30 * g + 0.15 * m + 0.10 * r)))"
  by (simp add: healthOf_def round_def algebra_simps)

lemma blend_bounds:
  fixes v q g m r a b c d e :: real
  assumes "10 \<le> v" "v \<le> 95" "10 \<le> q" "q \<le> 95" "10 \<le> g" "g \<le> 95"
    "10 \<le> m" "m \<le> 95" "10 \<le> r" "r \<le> 95"
    "0 \<le> a" "0 \<le> b" "0 \<le> c" "0 \<le> d" "0 \<le> e" "a + b + c + d + e = 1"
  shows "10 \<le> round (a * v + b * q + c * g + d * m + e * r)"
    and "round (a * v + b * q + c * g + d * m + e * r) \<le> 95"
proof -
  have lo: "a * 10 \<le> a * v" "b * 10 \<le> b * q" "c * 10 \<le> c * g" "d * 10 \<le> d * m" "e * 10 \<le> e * r"
    using assms by (simp_all add: mult_left_mono)
  have hi: "a * v \<le> a * 95" "b * q \<le> b * 95" "c * g \<le> c * 95" "d * m \<le> d * 95" "e * r \<le> e * 95"
    using assms by (simp_all add: mult_left_mono)
  have "a * 10 + b * 10 + c * 10 + d * 10 + e * 10 = (a + b + c + d + e) * 10"
    by (simp only: distrib_right)
  then have s10: "a * 10 + b * 10 + c * 10 + d * 10 + e * 10 = 10"
    using assms(16) by simp
  have "a * 95 + b * 95 + c * 95 + d * 95 + e * 95 = (a + b + c + d + e) * 95"
    by (simp only: distrib_right)
  then have s95: "a * 95 + b * 95 + c * 95 + d * 95 + e * 95 = 95"
    using assms(16) by simp
  have "10 \<le> a * v + b * q + c * g + d * m + e * r" using lo s10 by linarith
  then show "10 \<le> round (a * v + b * q + c * g + d * m + e * r)"
    by (simp add: round_def le_floor_iff)
  have "a * v + b * q + c * g + d * m + e * r \<le> 95" using hi s95 by linarith
  then show "round (a * v + b * q + c * g + d * m + e * r) \<le> 95"
    by (simp add: round_def floor_le_iff)
qed

section \<open>The P/E curve\<close>

lemma seg1_mono: "5 \<le> a \<Longrightarrow> a \<le> b \<Longrightarrow> b \<le> 15 \<Longrightarrow> peCurve b \<le> peCurve a"
  unfolding peCurve_def by (auto intro!: floor_mono)

lemma seg2_mono: "15 < a \<Longrightarrow> a \<le> b \<Longrightarrow> b \<le> 30 \<Longrightarrow> peCurve b \<le> peCurve a"
  unfolding peCurve_def by (auto intro!: floor_mono)

lemma seg3_mono: "30 < a \<Longrightarrow> a \<le> b \<Longrightarrow> b \<le> 60 \<Longrightarrow> peCurve b \<le> peCurve a"
  unfolding peCurve_def by (auto intro!: floor_mono)

lemma peCurve_antimono:
  assumes "5 \<le> a" "a \<le> b"
  shows "peCurve b \<le> peCurve a"
proof -
  consider (s1) "a \<le> 15" | (s2) "15 < a" "a \<le> 30" | (s3) "30 < a" "a \<le> 60" | (s4) "60 < a"
    by linarith
  then show ?thesis
  proof cases
    case s1
    consider "b \<le> 15" | "15 < b" "b \<le> 30" | "30 < b" "b \<le> 60" | "60 < b" by linarith
    then show ?thesis
    proof cases
      case 1 then show ?thesis using seg1_mono assms by simp
    next
      case 2 then show ?thesis using peCurve_seg1[of a] peCurve_seg2[of b] assms s1 by linarith
    next
      case 3 then show ?thesis using peCurve_seg1[of a] peCurve_seg3[of b] assms s1 by linarith
    next
      case 4 then show ?thesis using peCurve_seg1[of a] peCurve_seg4[of b] assms s1 by linarith
    qed
  next
    case s2
    consider "b \<le> 30" | "30 < b" "b \<le> 60" | "60 < b" by linarith
    then show ?thesis
    proof cases
      case 1 then show ?thesis using seg2_mono assms s2 by simp
    next
      case 2 then show ?thesis using peCurve_seg2[of a] peCurve_seg3[of b] s2 by linarith
    next
      case 3 then show ?thesis using peCurve_seg2[of a] peCurve_seg4[of b] s2 by linarith
    qed
  next
    case s3
    consider "b \<le> 60" | "60 < b" by linarith
    then show ?thesis
    proof cases
      case 1 then show ?thesis using seg3_mono assms s3 by simp
    next
      case 2 then show ?thesis using peCurve_seg3[of a] peCurve_seg4[of b] s3 by linarith
    qed
  next
    case s4
    then show ?thesis using peCurve_seg4[of a] peCurve_seg4[of b] assms by simp
  qed
qed

lemma peCurve_points:
  "peCurve 5 = 95" "peCurve 15 = 80" "peCurve 30 = 55" "peCurve 60 = 40"
  by (simp_all add: peCurve_def)

text \<open>
  Claim C3. On a present (finite) input the P/E scoring function returns 20 for every
  \<open>pe \<le> 0\<close>, exactly 95 at 5, 80 at 15, 55 at 30 and 40 at 60, returns 35 for every
  \<open>pe > 60\<close>, and never increases as \<open>pe\<close> grows above 5; on an absent input it returns
  absent.
\<close>

theorem scoreFromPe_curve:
  "(\<forall>pe. pe \<le> 0 \<longrightarrow> scoreFromPeOrNull (Some (Fin pe)) = Some (Fin 20))
   \<and> scoreFromPeOrNull (Some (Fin 5)) = Some (Fin 95)
   \<and> scoreFromPeOrNull (Some (Fin 15)) = Some (Fin 80)
   \<and> scoreFromPeOrNull (Some (Fin 30)) = Some (Fin 55)
   \<and> scoreFromPeOrNull (Some (Fin 60)) = Some (Fin 40)
   \<and> (\<forall>pe. 60 < pe \<longrightarrow> scoreFromPeOrNull (Some (Fin pe)) = Some (Fin 35))
   \<and> (\<forall>a b. 5 < a \<and> a \<le> b \<longrightarrow>
         (\<exists>x y. scoreFromPeOrNull (Some (Fin a)) = Some (Fin x)
                \<and> scoreFromPeOrNull (Some (Fin b)) = Some (Fin y) \<and> y \<le> x))
   \<and> scoreFromPeOrNull None = None"
proof (intro conjI allI impI)
  fix pe :: real assume "pe \<le> 0"
  then show "scoreFromPeOrNull (Some (Fin pe)) = Some (Fin 20)"
    by (simp add: pe_Fin peCurve_def)
next
  fix pe :: real assume "60 < pe"
  then show "scoreFromPeOrNull (Some (Fin pe)) = Some (Fin 35)"
    by (simp add: pe_Fin peCurve_seg4)
next
  fix a b :: real assume "5 < a \<and> a \<le> b"
  then have "peCurve b \<le> peCurve a" using peCurve_antimono[of a b] by simp
  then show "\<exists>x y. scoreFromPeOrNull (Some (Fin a)) = Some (Fin x)
                \<and> scoreFromPeOrNull (Some (Fin b)) = Some (Fin y) \<and> y \<le> x"
    by (simp add: pe_Fin)
qed (simp_all add: pe_Fin peCurve_points pe_absent)

theorem scoreFromPe_curve_witness:
  "(- 3 :: real) \<le> 0 \<and> scoreFromPeOrNull (Some (Fin (- 3))) = Some (Fin 20)
   \<and> (60 :: real) < 75 \<and> scoreFromPeOrNull (Some (Fin 75)) = Some (Fin 35)
   \<and> (5 :: real) < 10 \<and> (10 :: real) \<le> 20
   \<and> (\<exists>x y. scoreFromPeOrNull (Some (Fin 10)) = Some (Fin x)
          \<and> scoreFromPeOrNull (Some (Fin 20)) = Some (Fin y) \<and> y \<le> x)"
  using scoreFromPe_curve by simp

text \<open>
  Claim C10. For every present \<open>pe\<close> strictly between 0 and 5 the P/E scoring function
  returns 35, the value of the branch for \<open>pe > 60\<close>, and not the 95 awarded at 5: on
  \<open>(0, 60]\<close> the function is not non-increasing, since it rises from 35 just below 5
  to 95 at 5.
\<close>

theorem scoreFromPe_below_five:
  "(\<forall>pe. 0 < pe \<and> pe < 5 \<longrightarrow> scoreFromPeOrNull (Some (Fin pe)) = Some (Fin 35))
   \<and> scoreFromPeOrNull (Some (Fin 5)) = Some (Fin 95)
   \<and> (\<forall>pe. 60 < pe \<longrightarrow> scoreFromPeOrNull (Some (Fin pe)) = Some (Fin 35))
   \<and> (\<exists>a b x y. 0 < a \<and> a < b \<and> b \<le> 60
          \<and> scoreFromPeOrNull (Some (Fin a)) = Some (Fin x)
          \<and> scoreFromPeOrNull (Some (Fin b)) = Some (Fin y) \<and> x < y)"
proof (intro conjI allI impI)
  fix pe :: real assume "0 < pe \<and> pe < 5"
  then show "scoreFromPeOrNull (Some (Fin pe)) = Some (Fin 35)"
    by (simp add: pe_Fin peCurve_low)
next
  show "scoreFromPeOrNull (Some (Fin 5)) = Some (Fin 95)"
    by (simp add: pe_Fin peCurve_points)
next
  fix pe :: real assume "60 < pe"
  then show "scoreFromPeOrNull (Some (Fin pe)) = Some (Fin 35)"
    by (simp add: pe_Fin peCurve_seg4)
next
  have "scoreFromPeOrNull (Some (Fin 4)) = Some (Fin 35)"
    by (simp add: pe_Fin peCurve_low)
  moreover have "scoreFromPeOrNull (Some (Fin 5)) = Some (Fin 95)"
    by (simp add: pe_Fin peCurve_points)
  ultimately show "\<exists>a b x y. 0 < a \<and> a < b \<and> b \<le> 60
          \<and> scoreFromPeOrNull (Some (Fin a)) = Some (Fin x)
          \<and> scoreFromPeOrNull (Some (Fin b)) = Some (Fin y) \<and> x < y"
    by (intro exI[of _ 4] exI[of _ 5] exI[of _ 35] exI[of _ 95]) simp
qed

theorem scoreFromPe_below_five_witness:
  "(0 :: real) < 3 \<and> (3 :: real) < 5 \<and> scoreFromPeOrNull (Some (Fin 3)) = Some (Fin 35)
   \<and> (60 :: real) < 61 \<and> scoreFromPeOrNull (Some (Fin 61)) = Some (Fin 35)"
  using scoreFromPe_below_five by simp

section \<open>The analysis of a snapshot\<close>

lemma compute_sel:
  "toneScore (computeQuantAnalysis s) = scoreMomentum s"
  "growthScore (computeQuantAnalysis s) = scoreGrowth s"
  "profitabilityScore (computeQuantAnalysis s) = scoreQuality s"
  "valuationScore (computeQuantAnalysis s) = scoreValue s"
  "balanceScore (computeQuantAnalysis s) =
     balanceOf (scoreValue s) (scoreQuality s) (scoreGrowth s) (scoreMomentum s) (scoreRisk s)"
  "healthScore (computeQuantAnalysis s) =
     healthOf (scoreValue s) (scoreQuality s) (scoreGrowth s) (scoreMomentum s) (scoreRisk s)"
  "rating (computeQuantAnalysis s) =
     ratingOf (healthScore (computeQuantAnalysis s)) (balanceScore (computeQuantAnalysis s))"
  "conviction (computeQuantAnalysis s) = convictionOf (healthScore (computeQuantAnalysis s))"
  "keyRisks (computeQuantAnalysis s) = keyRisksOf s"
  "summary (computeQuantAnalysis s) = summaryOf s"
  by (simp_all add: computeQuantAnalysis_def Let_def)

lemma factors_obtain:
  obtains v q g m r :: int where
    "scoreValue s = Fin (of_int v)" "10 \<le> v" "v \<le> 95"
    "scoreQuality s = Fin (of_int q)" "10 \<le> q" "q \<le> 95"
    "scoreGrowth s = Fin (of_int g)" "10 \<le> g" "g \<le> 95"
    "scoreMomentum s = Fin (of_int m)" "10 \<le> m" "m \<le> 95"
    "scoreRisk s = Fin (of_int r)" "10 \<le> r" "r \<le> 95"
  using scoreValue_ok[of s] scoreQuality_ok[of s] scoreGrowth_ok[of s]
    scoreMomentum_ok[of s] scoreRisk_ok[of s]
  unfolding factor_ok_def by blast

lemma balance_ok:
  "factor_ok (balanceOf (scoreValue s) (scoreQuality s) (scoreGrowth s) (scoreMomentum s) (scoreRisk s))"
proof -
  obtain v q g m r :: int where f:
    "scoreValue s = Fin (of_int v)" "10 \<le> v" "v \<le> 95"
    "scoreQuality s = Fin (of_int q)" "10 \<le> q" "q \<le> 95"
    "scoreGrowth s = Fin (of_int g)" "10 \<le> g" "g \<le> 95"
    "scoreMomentum s = Fin (of_int m)" "10 \<le> m" "m \<le> 95"
    "scoreRisk s = Fin (of_int r)" "10 \<le> r" "r \<le> 95"
    by (rule factors_obtain)
  let ?k = "round (0.25 * real_of_int v + 0.25 * real_of_int q + 0.25 * real_of_int g
                   + 0.15 * real_of_int r + 0.10 * real_of_int m)"
  have "10 \<le> ?k \<and> ?k \<le> 95"
    using blend_bounds[of "real_of_int v" "real_of_int q" "real_of_int g" "real_of_int r"
        "real_of_int m" "0.25" "0.25" "0.25" "0.15" "0.10"] f by simp
  then show ?thesis unfolding factor_ok_def f balanceOf_Fin by blast
qed

lemma health_ok:
  "factor_ok (healthOf (scoreValue s) (scoreQuality s) (scoreGrowth s) (scoreMomentum s) (scoreRisk s))"
proof -
  obtain v q g m r :: int where f:
    "scoreValue s = Fin (of_int v)" "10 \<le> v" "v \<le> 95"
    "scoreQuality s = Fin (of_int q)" "10 \<le> q" "q \<le> 95"
    "scoreGrowth s = Fin (of_int g)" "10 \<le> g" "g \<le> 95"
    "scoreMomentum s = Fin (of_int m)" "10 \<le> m" "m \<le> 95"
    "scoreRisk s = Fin (of_int r)" "10 \<le> r" "r \<le> 95"
    by (rule factors_obtain)
  let ?k = "round (0.20 * real_of_int v + 0.25 * real_of_int q + 0.30 * real_of_int g
                   + 0.15 * real_of_int m + 0.10 * real_of_int r)"
  have "10 \<le> ?k \<and> ?k \<le> 95"
    using blend_bounds[of "real_of_int v" "real_of_int q" "real_of_int g" "real_of_int m"
        "real_of_int r" "0.20" "0.25" "0.30" "0.15" "0.10"] f by simp
  then show ?thesis unfolding factor_ok_def f healthOf_Fin by blast
qed

lemma factor_in_range: "factor_ok x \<Longrightarrow> in_range 0 100 x"
  by (auto simp: factor_ok_def in_range_def)

lemma conviction_Fin:
  "10 \<le> h \<Longrightarrow> h \<le> 95 \<Longrightarrow> convictionOf (Fin h) = Fin (35 + \<bar>h - 50\<bar>)"
  by (simp add: convictionOf_def clamp_def js_min_def js_max_def js_sub_def Let_def)

text \<open>
  Claim C8. For every snapshot each of the six returned scores (tone, growth,
  profitability, valuation, balance, health) lies in \<open>[0, 100]\<close> and the returned
  conviction lies in \<open>[10, 90]\<close>.
\<close>

theorem scores_within_bounds:
  "in_range 0 100 (toneScore (computeQuantAnalysis s))
   \<and> in_range 0 100 (growthScore (computeQuantAnalysis s))
   \<and> in_range 0 100 (profitabilityScore (computeQuantAnalysis s))
   \<and> in_range 0 100 (valuationScore (computeQuantAnalysis s))
   \<and> in_range 0 100 (balanceScore (computeQuantAnalysis s))
   \<and> in_range 0 100 (healthScore (computeQuantAnalysis s))
   \<and> in_range 10 90 (conviction (computeQuantAnalysis s))"
proof -
  obtain h :: int where h: "healthScore (computeQuantAnalysis s) = Fin (of_int h)" "10 \<le> h" "h \<le> 95"
    using health_ok[of s] unfolding compute_sel factor_ok_def by blast
  have "conviction (computeQuantAnalysis s) = Fin (35 + \<bar>real_of_int h - 50\<bar>)"
    unfolding compute_sel(8) h(1) using h(2,3) by (simp add: conviction_Fin)
  moreover have "10 \<le> 35 + \<bar>real_of_int h - 50\<bar>" "35 + \<bar>real_of_int h - 50\<bar> \<le> 90"
    using h(2,3) by simp_all
  ultimately have c: "in_range 10 90 (conviction (computeQuantAnalysis s))"
    by (simp add: in_range_def)
  show ?thesis
    using c factor_in_range[OF scoreMomentum_ok[of s]] factor_in_range[OF scoreGrowth_ok[of s]]
      factor_in_range[OF scoreQuality_ok[of s]] factor_in_range[OF scoreValue_ok[of s]]
      factor_in_range[OF balance_ok[of s]] factor_in_range[OF health_ok[of s]]
    by (simp add: compute_sel(1-6))
qed

subsection \<open>The example snapshots, evaluated\<close>

text \<open>The definitions that the simplifier unfolds to run a scorer on a concrete snapshot.\<close>

lemmas eval_defs =
  scoreValue_def scoreFromPeOrNull_def scoreQuality_def scoreGrowth_def priceGrowth_def
  scoreMomentum_def scoreRisk_def sizeScore_def avgScores_def avgScoresOrNull_def
  js_ge_def js_gt_def js_sub_def

lemma holdExample_factors:
  "scoreValue holdExample = Fin 78" "scoreQuality holdExample = Fin 78"
  "scoreGrowth holdExample = Fin 78" "scoreMomentum holdExample = Fin 50"
  "scoreRisk holdExample = Fin 50"
  by (simp_all add: holdExample_def placeholder_def eval_defs)

lemma buyExample_factors:
  "scoreValue buyExample = Fin 79" "scoreQuality buyExample = Fin 79"
  "scoreGrowth buyExample = Fin 79" "scoreMomentum buyExample = Fin 50"
  "scoreRisk buyExample = Fin 50"
  by (simp_all add: buyExample_def placeholder_def eval_defs)

section \<open>The band mapper and the rating\<close>

lemma scoreFromBand_Fin:
  "scoreFromBand (Some (Fin x)) (Fin lo) (Fin hi) =
     Fin (if x \<le> lo then 10 else if hi \<le> x then 95
          else 10 + (x - lo) / (hi - lo) * 85)"
  by (simp add: js_ge_def js_sub_def)

lemma band_interp_mono:
  fixes v w lo hi :: real
  assumes "lo < hi" "v \<le> w"
  shows "10 + (v - lo) / (hi - lo) * 85 \<le> 10 + (w - lo) / (hi - lo) * 85"
proof -
  have "(v - lo) / (hi - lo) \<le> (w - lo) / (hi - lo)"
    using assms by (simp add: divide_right_mono)
  then have "(v - lo) / (hi - lo) * 85 \<le> (w - lo) / (hi - lo) * 85"
    by (rule mult_right_mono) simp
  then show ?thesis by linarith
qed

lemma scoreFromBand_mono:
  assumes "lo < hi" "v \<le> w"
  shows "js_le (scoreFromBand (Some (Fin v)) (Fin lo) (Fin hi))
               (scoreFromBand (Some (Fin w)) (Fin lo) (Fin hi))"
proof -
  consider "v \<le> lo" | "lo < v" "w < hi" | "lo < v" "hi \<le> w" by linarith
  then show ?thesis
  proof cases
    case 1
    then show ?thesis
      using band_interp_bounds[of lo w hi] by (simp add: scoreFromBand_Fin del: scoreFromBand.simps)
  next
    case 2
    then show ?thesis
      using assms band_interp_mono[of lo hi v w] by (simp add: scoreFromBand_Fin del: scoreFromBand.simps)
  next
    case 3
    then show ?thesis
      using assms band_interp_bounds[of lo v hi] by (simp add: scoreFromBand_Fin del: scoreFromBand.simps)
  qed
qed

text \<open>
  Claim C7. For every band with \<open>min < max\<close>, \<open>scoreFromBand\<close> returns exactly 10 at
  \<open>min\<close> and exactly 95 at \<open>max\<close>, saturates to 10 below \<open>min\<close> and to 95 above
  \<open>max\<close>, does not decrease as the value grows over \<open>[min, max]\<close>, and returns 50 for
  an absent value; \<open>scoreFromBandOrNull\<close> returns absent for an absent value and the
  same score as \<open>scoreFromBand\<close> for every present one. Values and bounds are finite
  numbers.
\<close>

theorem scoreFromBand_edges:
  "lo < hi \<Longrightarrow>
     scoreFromBand (Some (Fin lo)) (Fin lo) (Fin hi) = Fin 10
   \<and> scoreFromBand (Some (Fin hi)) (Fin lo) (Fin hi) = Fin 95
   \<and> (\<forall>v. v < lo \<longrightarrow> scoreFromBand (Some (Fin v)) (Fin lo) (Fin hi) = Fin 10)
   \<and> (\<forall>v. hi < v \<longrightarrow> scoreFromBand (Some (Fin v)) (Fin lo) (Fin hi) = Fin 95)
   \<and> (\<forall>v w. lo \<le> v \<and> v \<le> w \<and> w \<le> hi \<longrightarrow>
         js_le (scoreFromBand (Some (Fin v)) (Fin lo) (Fin hi))
               (scoreFromBand (Some (Fin w)) (Fin lo) (Fin hi)))
   \<and> scoreFromBand None (Fin lo) (Fin hi) = Fin 50
   \<and> scoreFromBandOrNull None (Fin lo) (Fin hi) = None
   \<and> (\<forall>v. scoreFromBandOrNull (Some v) (Fin lo) (Fin hi) =
            Some (scoreFromBand (Some v) (Fin lo) (Fin hi)))"
proof (intro conjI allI impI)
  assume "lo < hi"
  then show "scoreFromBand (Some (Fin hi)) (Fin lo) (Fin hi) = Fin 95"
    by (simp add: scoreFromBand_Fin del: scoreFromBand.simps)
next
  fix v w assume "lo < hi" "lo \<le> v \<and> v \<le> w \<and> w \<le> hi"
  then show "js_le (scoreFromBand (Some (Fin v)) (Fin lo) (Fin hi))
               (scoreFromBand (Some (Fin w)) (Fin lo) (Fin hi))"
    using scoreFromBand_mono[of lo hi v w] by simp
next
  fix v show "scoreFromBandOrNull (Some v) (Fin lo) (Fin hi) =
            Some (scoreFromBand (Some v) (Fin lo) (Fin hi))"
    by (rule band_same)
qed (simp_all add: scoreFromBand_Fin del: scoreFromBand.simps(2))

theorem scoreFromBand_edges_witness:
  "(1 :: real) < 12
   \<and> scoreFromBand (Some (Fin 1)) (Fin 1) (Fin 12) = Fin 10
   \<and> scoreFromBand (Some (Fin 12)) (Fin 1) (Fin 12) = Fin 95
   \<and> (0 :: real) < 1 \<and> scoreFromBand (Some (Fin 0)) (Fin 1) (Fin 12) = Fin 10
   \<and> (12 :: real) < 40 \<and> scoreFromBand (Some (Fin 40)) (Fin 1) (Fin 12) = Fin 95
   \<and> (1 :: real) \<le> 3 \<and> (3 :: real) \<le> 7 \<and> (7 :: real) \<le> 12
   \<and> js_le (scoreFromBand (Some (Fin 3)) (Fin 1) (Fin 12))
            (scoreFromBand (Some (Fin 7)) (Fin 1) (Fin 12))
   \<and> scoreFromBandOrNull (Some (Fin 3)) (Fin 1) (Fin 12)
       = Some (scoreFromBand (Some (Fin 3)) (Fin 1) (Fin 12))"
  using scoreFromBand_edges[of 1 12] by (simp add: js_ge_def js_sub_def)

lemma ratingOf_Fin:
  "ratingOf (Fin h) (Fin b) =
     (if 72 \<le> h \<and> 60 \<le> b then BUY else if h \<le> 40 \<or> b \<le> 40 then SELL else HOLD)"
  by (simp add: ratingOf_def js_ge_def)

text \<open>
  Claim C4. For every pair of composite scores the rating is BUY if and only if
  \<open>health \<ge> 72\<close> and \<open>balance \<ge> 60\<close>; otherwise SELL if and only if \<open>health \<le> 40\<close> or
  \<open>balance \<le> 40\<close>; otherwise HOLD. The composite scores of every snapshot are finite and
  its rating is decided this way; in particular, with a balance score of at least 60, a
  health score of 72 yields BUY and a health score of 71 yields HOLD.
\<close>

theorem rating_decision:
  "(\<forall>h b. ratingOf (Fin h) (Fin b) =
       (if 72 \<le> h \<and> 60 \<le> b then BUY else if h \<le> 40 \<or> b \<le> 40 then SELL else HOLD))
   \<and> (\<exists>h b. healthScore (computeQuantAnalysis s) = Fin h
            \<and> balanceScore (computeQuantAnalysis s) = Fin b
            \<and> rating (computeQuantAnalysis s) =
                (if 72 \<le> h \<and> 60 \<le> b then BUY
                 else if h \<le> 40 \<or> b \<le> 40 then SELL else HOLD))
   \<and> (healthScore (computeQuantAnalysis s) = Fin 72
        \<and> js_ge (balanceScore (computeQuantAnalysis s)) (Fin 60)
        \<longrightarrow> rating (computeQuantAnalysis s) = BUY)
   \<and> (healthScore (computeQuantAnalysis s) = Fin 71
        \<and> js_ge (balanceScore (computeQuantAnalysis s)) (Fin 60)
        \<longrightarrow> rating (computeQuantAnalysis s) = HOLD)"
proof -
  obtain h :: int where h: "healthScore (computeQuantAnalysis s) = Fin (of_int h)"
    using health_ok[of s] unfolding compute_sel factor_ok_def by blast
  obtain b :: int where b: "balanceScore (computeQuantAnalysis s) = Fin (of_int b)"
    using balance_ok[of s] unfolding compute_sel factor_ok_def by blast
  have r: "rating (computeQuantAnalysis s) = ratingOf (Fin (of_int h)) (Fin (of_int b))"
    using compute_sel(7)[of s] h b by simp
  have 1: "\<forall>h b. ratingOf (Fin h) (Fin b) =
       (if 72 \<le> h \<and> 60 \<le> b then BUY else if h \<le> 40 \<or> b \<le> 40 then SELL else HOLD)"
    by (simp add: ratingOf_Fin)
  have 2: "\<exists>h b. healthScore (computeQuantAnalysis s) = Fin h
            \<and> balanceScore (computeQuantAnalysis s) = Fin b
            \<and> rating (computeQuantAnalysis s) =
                (if 72 \<le> h \<and> 60 \<le> b then BUY
                 else if h \<le> 40 \<or> b \<le> 40 then SELL else HOLD)"
    unfolding r unfolding h b ratingOf_Fin by (intro exI conjI) (rule refl)+
  have 3: "healthScore (computeQuantAnalysis s) = Fin 72
        \<and> js_ge (balanceScore (computeQuantAnalysis s)) (Fin 60)
        \<longrightarrow> rating (computeQuantAnalysis s) = BUY"
    unfolding r unfolding h b by (simp add: ratingOf_Fin js_ge_def)
  have 4: "healthScore (computeQuantAnalysis s) = Fin 71
        \<and> js_ge (balanceScore (computeQuantAnalysis s)) (Fin 60)
        \<longrightarrow> rating (computeQuantAnalysis s) = HOLD"
    unfolding r unfolding h b by (simp add: ratingOf_Fin js_ge_def)
  show ?thesis by (intro conjI) (rule 1 2 3 4)+
qed

theorem rating_decision_witness:
  "healthScore (computeQuantAnalysis buyExample) = Fin 72
   \<and> js_ge (balanceScore (computeQuantAnalysis buyExample)) (Fin 60)
   \<and> rating (computeQuantAnalysis buyExample) = BUY
   \<and> healthScore (computeQuantAnalysis holdExample) = Fin 71
   \<and> js_ge (balanceScore (computeQuantAnalysis holdExample)) (Fin 60)
   \<and> rating (computeQuantAnalysis holdExample) = HOLD"
proof -
  have b: "healthScore (computeQuantAnalysis buyExample) = Fin 72"
    "js_ge (balanceScore (computeQuantAnalysis buyExample)) (Fin 60)"
    by (simp_all add: compute_sel buyExample_factors healthOf_def balanceOf_def js_ge_def)
  have h: "healthScore (computeQuantAnalysis holdExample) = Fin 71"
    "js_ge (balanceScore (computeQuantAnalysis holdExample)) (Fin 60)"
    by (simp_all add: compute_sel holdExample_factors healthOf_def balanceOf_def js_ge_def)
  show ?thesis
    using rating_decision[of buyExample] rating_decision[of holdExample] b h by simp
qed

section \<open>The growth score is the two-stage fallback\<close>











section \<open>Absent fields and special values\<close>

lemma absent_factors:
  assumes "numericFieldsAbsent s"
  shows "scoreValue s = Fin 50" "scoreGrowth s = Fin 50" "scoreQuality s = Fin 50"
    "scoreMomentum s = Fin 50" "scoreRisk s = Fin 50"
  using assms by (simp_all add: numericFieldsAbsent_def eval_defs)

text \<open>
  Claim C1, amended. For a snapshot in which every numeric field is absent, the six
  scores all equal 50, the rating is HOLD, the conviction is 35, and the key risks are
  the two caveats about missing data, the profitability caveat followed by the growth
  caveat.
\<close>

theorem neutral_when_absent:
  "numericFieldsAbsent s \<Longrightarrow>
     toneScore (computeQuantAnalysis s) = Fin 50
   \<and> growthScore (computeQuantAnalysis s) = Fin 50
   \<and> profitabilityScore (computeQuantAnalysis s) = Fin 50
   \<and> valuationScore (computeQuantAnalysis s) = Fin 50
   \<and> balanceScore (computeQuantAnalysis s) = Fin 50
   \<and> healthScore (computeQuantAnalysis s) = Fin 50
   \<and> rating (computeQuantAnalysis s) = HOLD
   \<and> conviction (computeQuantAnalysis s) = Fin 35
   \<and> keyRisks (computeQuantAnalysis s) = [profitabilityCaveat, growthCaveat]"
proof -
  assume a: "numericFieldsAbsent s"
  have b: "balanceScore (computeQuantAnalysis s) = Fin 50"
    unfolding compute_sel absent_factors[OF a] by (simp add: balanceOf_def)
  have h: "healthScore (computeQuantAnalysis s) = Fin 50"
    unfolding compute_sel absent_factors[OF a] by (simp add: healthOf_def)
  have r: "rating (computeQuantAnalysis s) = HOLD"
    unfolding compute_sel(7) unfolding b h by (simp add: ratingOf_Fin)
  have c: "conviction (computeQuantAnalysis s) = Fin 35"
    unfolding compute_sel(8) unfolding h by (simp add: conviction_Fin)
  have k: "keyRisks (computeQuantAnalysis s) = [profitabilityCaveat, growthCaveat]"
    using a by (simp add: compute_sel(9) keyRisksOf_def numericFieldsAbsent_def)
  show ?thesis using b h r c k by (simp add: compute_sel(1-4) absent_factors[OF a])
qed

lemma placeholder_absent: "numericFieldsAbsent (placeholder t)"
  by (simp add: numericFieldsAbsent_def placeholder_def)

theorem neutral_when_absent_witness:
  "numericFieldsAbsent (placeholder ''ACME'')
   \<and> valuationScore (computeQuantAnalysis (placeholder ''ACME'')) = Fin 50
   \<and> healthScore (computeQuantAnalysis (placeholder ''ACME'')) = Fin 50
   \<and> rating (computeQuantAnalysis (placeholder ''ACME'')) = HOLD
   \<and> conviction (computeQuantAnalysis (placeholder ''ACME'')) = Fin 35
   \<and> keyRisks (computeQuantAnalysis (placeholder ''ACME''))
       = [profitabilityCaveat, growthCaveat]"
  using neutral_when_absent[OF placeholder_absent, of "''ACME''"] placeholder_absent by simp

text \<open>
  Claim C1 as stated fails on the placeholder snapshot: its key risks are two caveats,
  and the generic caveat is not among them.
\<close>

theorem absent_keyRisks_counterexample:
  "numericFieldsAbsent (placeholder ''ACME'')
   \<and> keyRisks (computeQuantAnalysis (placeholder ''ACME'')) \<noteq> [trailingCaveat]
   \<and> length (keyRisks (computeQuantAnalysis (placeholder ''ACME''))) = 2"
proof -
  have "keyRisks (computeQuantAnalysis (placeholder ''ACME'')) = [profitabilityCaveat, growthCaveat]"
    by (simp add: compute_sel(9) keyRisksOf_def placeholder_def)
  moreover have "profitabilityCaveat \<noteq> trailingCaveat"
    by (simp add: profitabilityCaveat_def trailingCaveat_def)
  ultimately show ?thesis using placeholder_absent[of "''ACME''"] by simp
qed

text \<open>
  What does hold for values that are not finite: the P/E curve treats them as absent, and
  an average drops the NaN that a band returns for a NaN value.
\<close>

lemma nonfinite_pe_is_absent:
  "\<not> isFinite n \<Longrightarrow> scoreFromPeOrNull (Some n) = scoreFromPeOrNull None"
  by (cases n) (simp_all add: pe_absent)

lemma nan_band_is_dropped:
  "avgScores (scoreFromBandOrNull (Some NaN) (Fin lo) (Fin hi) # ss) = avgScores (None # ss)"
  by (simp add: avgScores_def js_ge_def js_sub_def)

text \<open>
  Claim C2 says that a field holding NaN or an infinity is treated as absent. Only the
  P/E ratio passes through \<open>safeNum\<close>. An infinite price-to-sales ratio scores 95 where an
  absent one gives the neutral 50, and a NaN profit margin and ROE suppress the
  profitability caveat that absent ones produce.
\<close>

theorem infinite_field_not_absent:
  "valuationScore (computeQuantAnalysis ((placeholder ''ACME'')\<lparr>priceToSales := Some PInf\<rparr>))
     = Fin 95
   \<and> valuationScore (computeQuantAnalysis ((placeholder ''ACME'')\<lparr>priceToSales := None\<rparr>))
     = Fin 50
   \<and> keyRisks (computeQuantAnalysis
        ((placeholder ''ACME'')\<lparr>profitMargin := Some NaN, roe := Some NaN\<rparr>))
     = [growthCaveat]
   \<and> keyRisks (computeQuantAnalysis
        ((placeholder ''ACME'')\<lparr>profitMargin := None, roe := None\<rparr>))
     = [profitabilityCaveat, growthCaveat]"
  by (simp add: compute_sel keyRisksOf_def placeholder_def eval_defs)

lemma sameInputs_factors:
  assumes "sameInputs s t"
  shows "scoreValue s = scoreValue t" "scoreGrowth s = scoreGrowth t"
    "scoreQuality s = scoreQuality t" "scoreMomentum s = scoreMomentum t"
    "scoreRisk s = scoreRisk t" "keyRisksOf s = keyRisksOf t" "summaryOf s = summaryOf t"
proof -
  show "summaryOf s = summaryOf t"
    using assms unfolding sameInputs_def summaryOf_def by metis
qed (use assms in \<open>simp_all add: sameInputs_def scoreValue_def scoreGrowth_def priceGrowth_def
      scoreQuality_def scoreMomentum_def scoreRisk_def sizeScore_def keyRisksOf_def\<close>)

text \<open>
  The fields that are never read do not matter: two snapshots that agree on the fields
  the engine reads have the same analysis.
\<close>

lemma unread_fields_ignored:
  assumes "sameInputs s t"
  shows "computeQuantAnalysis s = computeQuantAnalysis t"
  unfolding computeQuantAnalysis_def sameInputs_factors[OF assms] ..

section \<open>The narrative\<close>

text \<open>
  Every number that the thesis interpolates is an integer, so its rendering is the
  decimal one.
\<close>

lemma interpolated_numbers_integral:
  "\<exists>h g q v r c :: int.
     healthScore (computeQuantAnalysis s) = Fin (of_int h)
     \<and> growthScore (computeQuantAnalysis s) = Fin (of_int g)
     \<and> profitabilityScore (computeQuantAnalysis s) = Fin (of_int q)
     \<and> valuationScore (computeQuantAnalysis s) = Fin (of_int v)
     \<and> scoreRisk s = Fin (of_int r)
     \<and> conviction (computeQuantAnalysis s) = Fin (of_int c)"
proof -
  obtain v q g m r :: int where f:
    "scoreValue s = Fin (of_int v)" "10 \<le> v" "v \<le> 95"
    "scoreQuality s = Fin (of_int q)" "10 \<le> q" "q \<le> 95"
    "scoreGrowth s = Fin (of_int g)" "10 \<le> g" "g \<le> 95"
    "scoreMomentum s = Fin (of_int m)" "10 \<le> m" "m \<le> 95"
    "scoreRisk s = Fin (of_int r)" "10 \<le> r" "r \<le> 95"
    by (rule factors_obtain)
  obtain h :: int where h: "healthScore (computeQuantAnalysis s) = Fin (of_int h)" "10 \<le> h" "h \<le> 95"
    using health_ok[of s] unfolding compute_sel factor_ok_def by blast
  have "conviction (computeQuantAnalysis s) = Fin (35 + \<bar>real_of_int h - 50\<bar>)"
    unfolding compute_sel(8) h(1) using h(2,3) by (simp add: conviction_Fin)
  also have "35 + \<bar>real_of_int h - 50\<bar> = real_of_int (35 + \<bar>h - 50\<bar>)" by simp
  finally have c: "conviction (computeQuantAnalysis s) = Fin (of_int (35 + \<bar>h - 50\<bar>))" .
  show ?thesis
    unfolding compute_sel(2-4) f(1,4,7,13) h(1) c by blast
qed

text \<open>The two template strings of the snapshot whose health score is 72.\<close>

lemma buyExample_thesis:
  "thesis (computeQuantAnalysis buyExample) =
     ''The composite health score of 72 blends 79 for growth, 79 for profitability, 79 for valuation, and 50 for risk characteristics. This currently supports a BUY stance with about 57% conviction given the available data.''"
  by (simp add: computeQuantAnalysis_def buyExample_factors Let_def healthOf_def balanceOf_def
      ratingOf_Fin conviction_Fin thesisOf_def show_int_def digit_def)

lemma buyExample_summary:
  "summary (computeQuantAnalysis buyExample) =
     ''Quantitative snapshot for ACME (ACME) using valuation (P/E, PEG, P/S, P/B), growth (fundamental & price-based), profitability (margin & ROE), momentum, and basic risk proxies.''"
  by (simp add: compute_sel summaryOf_def buyExample_def placeholder_def)

end
